theory Spec2Isabelle
  imports Main "HOL-Library.Word"
begin

section \<open>The topic tool of src/tools/KafkaTopics.cc\<close>

text \<open>
  The tool parses its command line with an option library, checks the combination of
  options, and calls one operation of the admin client. The option library and the admin
  client are not part of the file: the outcome of the library's parse of the command line
  and the values the admin client returns are inputs of the model.
\<close>

subsection \<open>Data\<close>

text \<open>\<^verbatim>\<open>struct Arguments\<close>, lines 14 to 28. The fields of type \<^verbatim>\<open>int\<close> are 32-bit words
  read as signed numbers.\<close>

datatype OpType = Create | Delete | List

record Arguments =
  broker :: string
  topic :: string
  opType :: OpType
  partitions :: "32 word"
  replicationFactor :: "32 word"
  adminConfig :: "string list"
  topicProps :: "string list"

text \<open>The constructor of line 18: value-initialised \<^verbatim>\<open>opType\<close> (the first enumerator),
  \<^verbatim>\<open>partitions\<close> and \<^verbatim>\<open>replicationFactor\<close>; empty strings and vectors.\<close>

definition Arguments_init :: Arguments where
  "Arguments_init =
     \<lparr>broker = [], topic = [], opType = Create, partitions = 0, replicationFactor = 0,
      adminConfig = [], topicProps = []\<rparr>"

text \<open>The variables map \<^verbatim>\<open>vm\<close> that \<^verbatim>\<open>po::store\<close> fills (line 69), one field for each option
  declared in lines 36 to 66. An option without a value is present or not; an option with
  a value is absent or carries its value, converted to the declared type by the library.\<close>

record variables_map =
  vm_help :: bool
  vm_bootstrap_server :: "string option"
  vm_admin_config :: "string list option"
  vm_list :: bool
  vm_create :: bool
  vm_delete :: bool
  vm_topic :: "string option"
  vm_partitions :: "32 word option"
  vm_replication_factor :: "32 word option"
  vm_topic_props :: "string list option"

text \<open>\<^verbatim>\<open>vm.count(name)\<close> of a map is 0 or 1.\<close>

definition count_flag :: "bool \<Rightarrow> nat" where
  "count_flag b = (if b then 1 else 0)"

definition count_value :: "'a option \<Rightarrow> nat" where
  "count_value v = (case v of None \<Rightarrow> 0 | Some _ \<Rightarrow> 1)"

text \<open>The exceptions that \<^verbatim>\<open>main\<close> catches as \<^verbatim>\<open>std::exception\<close>: the
  \<^verbatim>\<open>std::invalid_argument\<close> thrown in lines 84 to 111, the library's exception for a
  missing required option (\<^verbatim>\<open>po::notify\<close>, line 80), and any exception of the library's
  parse of the command line (line 69), which carries the library's message.\<close>

datatype exn =
    invalid_argument string
  | required_option string
  | parse_failure string

fun what :: "exn \<Rightarrow> string" where
  "what (invalid_argument m) = m"
| "what (required_option name) = ''the option '' @ [CHR 0x27] @ ''--'' @ name @ [CHR 0x27] @ '' is required but missing''"
| "what (parse_failure m) = m"

text \<open>The property maps of the admin client (\<^verbatim>\<open>AdminClientConfig\<close>, \<^verbatim>\<open>Properties\<close>) and
  their \<^verbatim>\<open>put\<close>.\<close>

type_synonym Properties = "string \<rightharpoonup> string"

definition put :: "Properties \<Rightarrow> string \<Rightarrow> string \<Rightarrow> Properties" where
  "put m k v = m(k \<mapsto> v)"

text \<open>The results of the admin client: \<^verbatim>\<open>error\<close>, \<^verbatim>\<open>detail\<close>, and \<^verbatim>\<open>topics\<close> for the
  listing.\<close>

record Result =
  error :: bool
  detail :: string

record ListTopicsResult = Result +
  topics :: "string list"

text \<open>What the tool takes from outside: the library version and the rendering of the
  options description in the help text, the name of the bootstrap property, whether the
  constructor of the admin client throws for a configuration, and the answers of the admin
  client, as functions of the configuration of the client and of the arguments of the
  call.\<close>

record environment =
  getLibRdKafkaVersion :: string
  desc :: string
  BOOTSTRAP_SERVERS :: string
  AdminClient_throws :: "Properties \<Rightarrow> bool"
  listTopics :: "Properties \<Rightarrow> ListTopicsResult"
  createTopics :: "Properties \<Rightarrow> string list \<Rightarrow> 32 word \<Rightarrow> 32 word \<Rightarrow> Properties \<Rightarrow> Result"
  deleteTopics :: "Properties \<Rightarrow> string list \<Rightarrow> Result"

text \<open>The calls to the admin client in the order made: the constructor with the
  configuration it was given, and each operation with the result it returned.\<close>

datatype call =
    AdminClient_new Properties
  | listTopics_call ListTopicsResult
  | createTopics_call "string list" "32 word" "32 word" Properties Result
  | deleteTopics_call "string list" Result

text \<open>How the process ends: it exits with a status, or it is aborted, which is what
  happens to an exception that leaves \<^verbatim>\<open>main\<close>.\<close>

datatype outcome = Exited int | Aborted

text \<open>A run of the process: what the program wrote on the two streams, how it ended and
  the calls made. What the language runtime itself writes when it aborts the process is
  not part of the streams.\<close>

record run =
  out :: string
  err :: string
  status :: outcome
  calls :: "call list"

definition EXIT_SUCCESS :: int where
  "EXIT_SUCCESS = 0"

definition EXIT_FAILURE :: int where
  "EXIT_FAILURE = 1"

definition endl :: string where
  "endl = [CHR 0x0A]"

subsection \<open>ParseArguments, lines 30 to 116\<close>

text \<open>\<^verbatim>\<open>po::notify(vm)\<close>, line 80: a required option that is absent raises; otherwise each
  option present with a value is stored in the field of \<^verbatim>\<open>args\<close> it was declared with.\<close>

definition notify :: "variables_map \<Rightarrow> Arguments \<Rightarrow> exn + Arguments" where
  "notify vm args =
     (case vm_bootstrap_server vm of
        None \<Rightarrow> Inl (required_option ''bootstrap-server'')
      | Some b \<Rightarrow>
          Inr (args
            \<lparr>broker := b,
             topic := (case vm_topic vm of None \<Rightarrow> topic args | Some t \<Rightarrow> t),
             partitions := (case vm_partitions vm of None \<Rightarrow> partitions args | Some n \<Rightarrow> n),
             replicationFactor :=
               (case vm_replication_factor vm of None \<Rightarrow> replicationFactor args | Some n \<Rightarrow> n),
             adminConfig := (case vm_admin_config vm of None \<Rightarrow> adminConfig args | Some xs \<Rightarrow> xs),
             topicProps := (case vm_topic_props vm of None \<Rightarrow> topicProps args | Some xs \<Rightarrow> xs)\<rparr>))"

text \<open>The help text of lines 74 to 76.\<close>

definition usage :: "environment \<Rightarrow> string" where
  "usage env =
     ''This tool helps in Kafka topic operations'' @ endl @
     ''    (with librdkafka v'' @ getLibRdKafkaVersion env @ '')'' @ endl @
     desc env @ endl"

text \<open>The \<^verbatim>\<open>switch\<close> of lines 89 to 114 on the operation already stored in \<^verbatim>\<open>args\<close>.\<close>

definition check_operation :: "variables_map \<Rightarrow> Arguments \<Rightarrow> exn + Arguments" where
  "check_operation vm args =
     (case opType args of
        List \<Rightarrow>
          if count_value (vm_topic vm) \<noteq> 0 \<or> count_value (vm_partitions vm) \<noteq> 0 \<or>
             count_value (vm_replication_factor vm) \<noteq> 0 \<or> count_value (vm_topic_props vm) \<noteq> 0
          then Inl (invalid_argument
            ''The --list operation CANNOT take any '--topic/--partitions/--replication-factor/--topic-props' option!'')
          else Inr args
      | Create \<Rightarrow>
          if count_value (vm_topic vm) = 0 \<or> count_value (vm_partitions vm) = 0 \<or>
             count_value (vm_replication_factor vm) = 0
          then Inl (invalid_argument
            ''The --create operation MUST be with '--topic/--partitions/--replication-factor' options!'')
          else Inr args
      | Delete \<Rightarrow>
          if count_value (vm_topic vm) = 0
          then Inl (invalid_argument ''The --delete operation MUST be with '--topic' option!'')
          else if count_value (vm_partitions vm) \<noteq> 0 \<or> count_value (vm_replication_factor vm) \<noteq> 0 \<or>
                  count_value (vm_topic_props vm) \<noteq> 0
          then Inl (invalid_argument
            ''The --delete operation CANNOT take any of '--partitions/--replication-factor/--topic-props' options!'')
          else Inr args)"

text \<open>The function returns what it printed on the standard output together with its
  result: an exception, the null pointer (\<open>None\<close>, only for the help), or the arguments.
  \<open>argc\<close> is the \<^verbatim>\<open>argc\<close> of the process; \<open>cmdline\<close> is the outcome of line 69, an exception
  of the library or the variables map.\<close>

definition ParseArguments ::
  "environment \<Rightarrow> int \<Rightarrow> exn + variables_map \<Rightarrow> string \<times> (exn + Arguments option)" where
  "ParseArguments env argc cmdline =
     (case cmdline of
        Inl e \<Rightarrow> ([], Inl e)
      | Inr vm \<Rightarrow>
          if count_flag (vm_help vm) \<noteq> 0 \<or> argc = 1 then (usage env, Inr None)
          else
            (case notify vm Arguments_init of
               Inl e \<Rightarrow> ([], Inl e)
             | Inr args \<Rightarrow>
                 if count_flag (vm_list vm) + count_flag (vm_create vm) + count_flag (vm_delete vm) \<noteq> 1
                 then ([], Inl (invalid_argument
                   (''MUST choose exactly one operation from '--list/--create/--delete'' @ [CHR 0x27])))
                 else
                   (case check_operation vm
                      (args\<lparr>opType :=
                         (if count_flag (vm_list vm) \<noteq> 0 then List
                          else if count_flag (vm_create vm) \<noteq> 0 then Create else Delete)\<rparr>) of
                      Inl e \<Rightarrow> ([], Inl e)
                    | Inr args' \<Rightarrow> ([], Inr (Some args')))))"

subsection \<open>main, lines 119 to 199\<close>

text \<open>\<^verbatim>\<open>boost::algorithm::split(keyValue, item, boost::is_any_of("="))\<close>, lines 142 and 172:
  the input is cut at every \<^verbatim>\<open>=\<close>, and adjacent separators are not merged (the library's
  default), so that empty parts are kept.\<close>

fun split_is_any_of :: "char \<Rightarrow> string \<Rightarrow> string list" where
  "split_is_any_of sep [] = [[]]"
| "split_is_any_of sep (c # cs) =
     (if c = sep then [] # split_is_any_of sep cs
      else (case split_is_any_of sep cs of
              [] \<Rightarrow> [[c]]
            | part # parts \<Rightarrow> (c # part) # parts))"

text \<open>The loops of lines 139 to 149 and 169 to 179: every item is split and put in the
  map; the first item that does not split in two parts ends the loop (and \<^verbatim>\<open>main\<close>),
  here with \<open>None\<close>.\<close>

fun put_items :: "Properties \<Rightarrow> string list \<Rightarrow> Properties option" where
  "put_items props [] = Some props"
| "put_items props (item # items) =
     (let keyValue = split_is_any_of (CHR ''='') item in
      if length keyValue \<noteq> 2 then None
      else put_items (put props (keyValue ! 0) (keyValue ! 1)) items)"

text \<open>The loop of lines 161 to 164.\<close>

fun print_topics :: "string \<Rightarrow> string list \<Rightarrow> string" where
  "print_topics stdout [] = stdout"
| "print_topics stdout (t # ts) = print_topics (stdout @ t @ endl) ts"

text \<open>Lines 137 to 198, for the arguments \<open>args\<close> that \<^verbatim>\<open>ParseArguments\<close> returned after
  printing \<open>printed\<close>. The constructor of line 150 is called outside the \<^verbatim>\<open>try\<close> block
  of lines 123 to 131: when it throws, nothing catches the exception.\<close>

definition dispatch :: "environment \<Rightarrow> string \<Rightarrow> Arguments \<Rightarrow> run" where
  "dispatch env printed args =
     (case put_items (put Map.empty (BOOTSTRAP_SERVERS env) (broker args)) (adminConfig args) of
        None \<Rightarrow>
          \<lparr>out = printed,
           err = ''Wrong option for --admin-config! MUST follow with key=value format!'' @ endl,
           status = Exited EXIT_FAILURE, calls = []\<rparr>
      | Some adminConf \<Rightarrow>
          if AdminClient_throws env adminConf then
            \<lparr>out = printed, err = [], status = Aborted, calls = [AdminClient_new adminConf]\<rparr>
          else if opType args = List then
            (let listResult = listTopics env adminConf in
             if error listResult then
               \<lparr>out = printed, err = ''Error: '' @ detail listResult @ endl,
                status = Exited EXIT_FAILURE,
                calls = [AdminClient_new adminConf, listTopics_call listResult]\<rparr>
             else
               \<lparr>out = print_topics printed (topics listResult), err = [],
                status = Exited EXIT_SUCCESS,
                calls = [AdminClient_new adminConf, listTopics_call listResult]\<rparr>)
          else if opType args = Create then
            (case put_items Map.empty (topicProps args) of
               None \<Rightarrow>
                 \<lparr>out = printed,
                  err = ''Wrong option for --topic-props! MUST follow with key=value format!'' @ endl,
                  status = Exited EXIT_FAILURE, calls = [AdminClient_new adminConf]\<rparr>
             | Some props \<Rightarrow>
                 (let createResult =
                    createTopics env adminConf [topic args] (partitions args)
                      (replicationFactor args) props in
                  \<lparr>out = printed,
                   err = (if error createResult then ''Error: '' @ detail createResult @ endl else []),
                   status = Exited (if error createResult then EXIT_FAILURE else EXIT_SUCCESS),
                   calls = [AdminClient_new adminConf,
                     createTopics_call [topic args] (partitions args) (replicationFactor args)
                       props createResult]\<rparr>))
          else
            (let deleteResult = deleteTopics env adminConf [topic args] in
             \<lparr>out = printed,
              err = (if error deleteResult then ''Error: '' @ detail deleteResult @ endl else []),
              status = Exited (if error deleteResult then EXIT_FAILURE else EXIT_SUCCESS),
              calls = [AdminClient_new adminConf, deleteTopics_call [topic args] deleteResult]\<rparr>))"

text \<open>\<^verbatim>\<open>main\<close>: an exception of \<^verbatim>\<open>ParseArguments\<close> is printed by the handler of lines 127
  to 131, on the stream written there; the null pointer ends the process with success.\<close>

definition main :: "environment \<Rightarrow> int \<Rightarrow> exn + variables_map \<Rightarrow> run" where
  "main env argc cmdline =
     (case ParseArguments env argc cmdline of
        (printed, Inl e) \<Rightarrow>
          \<lparr>out = printed @ what e @ endl, err = [], status = Exited EXIT_FAILURE, calls = []\<rparr>
      | (printed, Inr None) \<Rightarrow>
          \<lparr>out = printed, err = [], status = Exited EXIT_SUCCESS, calls = []\<rparr>
      | (printed, Inr (Some args)) \<Rightarrow> dispatch env printed args)"

section \<open>Notions of the specification\<close>

text \<open>The number of operation selectors present, and the operation that line 86 stores.\<close>

definition selectors :: "variables_map \<Rightarrow> nat" where
  "selectors vm = count_flag (vm_list vm) + count_flag (vm_create vm) + count_flag (vm_delete vm)"

definition selected :: "variables_map \<Rightarrow> OpType" where
  "selected vm = (if vm_list vm then List else if vm_create vm then Create else Delete)"

text \<open>The command line selects the operation \<open>op\<close> and no other.\<close>

definition selects :: "variables_map \<Rightarrow> OpType \<Rightarrow> bool" where
  "selects vm op =
     (vm_list vm = (op = List) \<and> vm_create vm = (op = Create) \<and> vm_delete vm = (op = Delete))"

text \<open>The table of required and forbidden options, as the specification writes it:
  List forbids topic, partitions, replication-factor and topic-props; Create requires
  topic, partitions and replication-factor; Delete requires topic and forbids partitions,
  replication-factor and topic-props.\<close>

definition table_ok :: "OpType \<Rightarrow> variables_map \<Rightarrow> bool" where
  "table_ok op vm =
     (case op of
        List \<Rightarrow>
          vm_topic vm = None \<and> vm_partitions vm = None \<and> vm_replication_factor vm = None \<and>
          vm_topic_props vm = None
      | Create \<Rightarrow>
          vm_topic vm \<noteq> None \<and> vm_partitions vm \<noteq> None \<and> vm_replication_factor vm \<noteq> None
      | Delete \<Rightarrow>
          vm_topic vm \<noteq> None \<and> vm_partitions vm = None \<and> vm_replication_factor vm = None \<and>
          vm_topic_props vm = None)"

text \<open>The request that a command line describes for the operation \<open>op\<close> and the broker
  \<open>b\<close>: the values supplied, and the initial value of a field whose option is absent.\<close>

definition request :: "OpType \<Rightarrow> string \<Rightarrow> variables_map \<Rightarrow> Arguments" where
  "request op b vm =
     \<lparr>broker = b,
      topic = (case vm_topic vm of None \<Rightarrow> [] | Some t \<Rightarrow> t),
      opType = op,
      partitions = (case vm_partitions vm of None \<Rightarrow> 0 | Some n \<Rightarrow> n),
      replicationFactor = (case vm_replication_factor vm of None \<Rightarrow> 0 | Some n \<Rightarrow> n),
      adminConfig = (case vm_admin_config vm of None \<Rightarrow> [] | Some xs \<Rightarrow> xs),
      topicProps = (case vm_topic_props vm of None \<Rightarrow> [] | Some xs \<Rightarrow> xs)\<rparr>"

text \<open>The message of line 84.\<close>

definition choose_one_message :: string where
  "choose_one_message =
     ''MUST choose exactly one operation from '--list/--create/--delete'' @ [CHR 0x27]"

text \<open>Tokens of the form key=value. The number of \<^verbatim>\<open>=\<close> in a token, the text before the
  first \<^verbatim>\<open>=\<close> and the text after it.\<close>

definition separators :: "string \<Rightarrow> nat" where
  "separators tok = count_list tok (CHR ''='')"

definition key_of :: "string \<Rightarrow> string" where
  "key_of tok = takeWhile (\<lambda>c. c \<noteq> CHR ''='') tok"

definition value_of :: "string \<Rightarrow> string" where
  "value_of tok = tl (dropWhile (\<lambda>c. c \<noteq> CHR ''='') tok)"

text \<open>A malformed token as the specification describes it: no \<^verbatim>\<open>=\<close>, more than one, or
  an empty key or an empty value around it.\<close>

definition spec_malformed :: "string \<Rightarrow> bool" where
  "spec_malformed tok = (separators tok = 0 \<or> 1 < separators tok \<or> key_of tok = [] \<or> value_of tok = [])"

text \<open>The map after putting every token of a list, first to last.\<close>

definition put_tokens :: "Properties \<Rightarrow> string list \<Rightarrow> Properties" where
  "put_tokens props toks = foldl (\<lambda>m tok. m(key_of tok \<mapsto> value_of tok)) props toks"

text \<open>The two messages for a list of properties that does not parse.\<close>

definition admin_config_message :: string where
  "admin_config_message = ''Wrong option for --admin-config! MUST follow with key=value format!''"

definition topic_props_message :: string where
  "topic_props_message = ''Wrong option for --topic-props! MUST follow with key=value format!''"

text \<open>Calls that are operations of the admin client (not the construction of the
  client), and the error flag of the result such a call returned.\<close>

fun is_operation :: "call \<Rightarrow> bool" where
  "is_operation (AdminClient_new conf) = False"
| "is_operation (listTopics_call r) = True"
| "is_operation (createTopics_call names p rf props r) = True"
| "is_operation (deleteTopics_call names r) = True"








section \<open>Example invocations\<close>

text \<open>An environment: a cluster with the topics a and b, where the admin client is
  constructed and creating and deleting succeed.\<close>

definition env_example :: environment where
  "env_example =
     \<lparr>getLibRdKafkaVersion = ''1.0.0'', desc = ''Options description:'',
      BOOTSTRAP_SERVERS = ''bootstrap.servers'',
      AdminClient_throws = (\<lambda>conf. False),
      listTopics = (\<lambda>conf. \<lparr>error = False, detail = [], topics = [''a'', ''b'']\<rparr>),
      createTopics = (\<lambda>conf names p rf props. \<lparr>error = False, detail = []\<rparr>),
      deleteTopics = (\<lambda>conf names. \<lparr>error = False, detail = []\<rparr>)\<rparr>"

text \<open>The same environment, where the constructor of the admin client throws.\<close>

definition env_unreachable :: environment where
  "env_unreachable = env_example\<lparr>AdminClient_throws := (\<lambda>conf. True)\<rparr>"

text \<open>The variables map of a command line without options.\<close>

definition vm_empty :: variables_map where
  "vm_empty =
     \<lparr>vm_help = False, vm_bootstrap_server = None, vm_admin_config = None, vm_list = False,
      vm_create = False, vm_delete = False, vm_topic = None, vm_partitions = None,
      vm_replication_factor = None, vm_topic_props = None\<rparr>"

text \<open>\<^verbatim>\<open>--list\<close>\<close>

definition vm_list_only :: variables_map where
  "vm_list_only = vm_empty\<lparr>vm_list := True\<rparr>"

text \<open>\<^verbatim>\<open>--bootstrap-server broker:9092 --list\<close>\<close>

definition vm_scenario1 :: variables_map where
  "vm_scenario1 = vm_empty\<lparr>vm_bootstrap_server := Some ''broker:9092'', vm_list := True\<rparr>"

text \<open>\<^verbatim>\<open>--help --bootstrap-server broker:9092 --list --topic t1\<close>\<close>

definition vm_help_list_topic :: variables_map where
  "vm_help_list_topic =
     vm_empty\<lparr>vm_help := True, vm_bootstrap_server := Some ''broker:9092'', vm_list := True,
       vm_topic := Some ''t1''\<rparr>"

text \<open>\<^verbatim>\<open>--bootstrap-server broker:9092 --list --topic t1\<close>\<close>

definition vm_list_topic :: variables_map where
  "vm_list_topic =
     vm_empty\<lparr>vm_bootstrap_server := Some ''broker:9092'', vm_list := True, vm_topic := Some ''t1''\<rparr>"

text \<open>\<^verbatim>\<open>--bootstrap-server broker:9092 --create --topic t1 --partitions 3 --replication-factor 2\<close>\<close>

definition vm_scenario2 :: variables_map where
  "vm_scenario2 =
     vm_empty\<lparr>vm_bootstrap_server := Some ''broker:9092'', vm_create := True,
       vm_topic := Some ''t1'', vm_partitions := Some 3, vm_replication_factor := Some 2\<rparr>"

text \<open>\<^verbatim>\<open>--bootstrap-server broker:9092 --delete --topic t1 --partitions 3\<close>\<close>

definition vm_scenario3 :: variables_map where
  "vm_scenario3 =
     vm_empty\<lparr>vm_bootstrap_server := Some ''broker:9092'', vm_delete := True,
       vm_topic := Some ''t1'', vm_partitions := Some 3\<rparr>"

text \<open>\<^verbatim>\<open>--bootstrap-server broker:9092 --create --topic t1 --partitions 3 --replication-factor 2 --topic-props retention.ms\<close>\<close>

definition vm_scenario4 :: variables_map where
  "vm_scenario4 = vm_scenario2\<lparr>vm_topic_props := Some [''retention.ms'']\<rparr>"

text \<open>\<^verbatim>\<open>--bootstrap-server broker:9092 --create --topic t1 --partitions 3 --replication-factor 2 --topic-props a=\<close>\<close>

definition vm_create_empty_value :: variables_map where
  "vm_create_empty_value = vm_scenario2\<lparr>vm_topic_props := Some [''a='']\<rparr>"

text \<open>\<^verbatim>\<open>--bootstrap-server broker:9092 --list --admin-config a=\<close>\<close>

definition vm_empty_value :: variables_map where
  "vm_empty_value = vm_scenario1\<lparr>vm_admin_config := Some [''a='']\<rparr>"

text \<open>\<^verbatim>\<open>--bootstrap-server broker:9092 --list --admin-config a=b=c\<close>\<close>

definition vm_two_separators :: variables_map where
  "vm_two_separators = vm_scenario1\<lparr>vm_admin_config := Some [''a=b=c'']\<rparr>"

text \<open>\<^verbatim>\<open>--bootstrap-server broker:9092 --create --topic t1 --partitions 0 --replication-factor 0\<close>\<close>

definition vm_create_zero :: variables_map where
  "vm_create_zero =
     vm_empty\<lparr>vm_bootstrap_server := Some ''broker:9092'', vm_create := True,
       vm_topic := Some ''t1'', vm_partitions := Some 0, vm_replication_factor := Some 0\<rparr>"

text \<open>\<^verbatim>\<open>--bootstrap-server broker:9092 --create --topic t1 --partitions=-1 --replication-factor=-2\<close>\<close>

definition vm_create_negative :: variables_map where
  "vm_create_negative =
     vm_empty\<lparr>vm_bootstrap_server := Some ''broker:9092'', vm_create := True,
       vm_topic := Some ''t1'', vm_partitions := Some (- 1), vm_replication_factor := Some (- 2)\<rparr>"

text \<open>\<^verbatim>\<open>--bootstrap-server broker:9092 --admin-config x\<close>\<close>

definition vm_no_selector_bad_token :: variables_map where
  "vm_no_selector_bad_token =
     vm_empty\<lparr>vm_bootstrap_server := Some ''broker:9092'', vm_admin_config := Some [''x'']\<rparr>"

text \<open>\<^verbatim>\<open>--help --admin-config x\<close>\<close>

definition vm_help_bad_token :: variables_map where
  "vm_help_bad_token = vm_empty\<lparr>vm_help := True, vm_admin_config := Some [''x'']\<rparr>"

text \<open>The fourth scenario with \<^verbatim>\<open>--help\<close> added.\<close>

definition vm_help_scenario4 :: variables_map where
  "vm_help_scenario4 = vm_scenario4\<lparr>vm_help := True\<rparr>"

text \<open>\<^verbatim>\<open>--bootstrap-server broker:9092 --create --topic-props retention.ms\<close>\<close>

definition vm_create_no_topic :: variables_map where
  "vm_create_no_topic =
     vm_empty\<lparr>vm_bootstrap_server := Some ''broker:9092'', vm_create := True,
       vm_topic_props := Some [''retention.ms'']\<rparr>"

text \<open>Two command lines that hold a help option and that the library rejects at line
  69, with the exception it raises: \<^verbatim>\<open>--help --no-such-option\<close> and
  \<^verbatim>\<open>--help --partitions abc\<close>.\<close>

definition rejected_help_unknown_option :: "exn + variables_map" where
  "rejected_help_unknown_option =
     Inl (parse_failure (''unrecognised option '--no-such-option'' @ [CHR 0x27]))"

definition rejected_help_bad_number :: "exn + variables_map" where
  "rejected_help_bad_number =
     Inl (parse_failure (''the argument ('abc') for option '--partitions' is invalid''))"

section \<open>Lemmas on the functions\<close>

lemma split_is_any_of_length:
  "length (split_is_any_of sep s) = Suc (count_list s sep)"
  by (induction s) (auto split: list.splits)

lemma split_is_any_of_no_separator:
  "count_list s sep = 0 \<Longrightarrow> split_is_any_of sep s = [s]"
  by (induction s) (auto split: if_splits)

lemma split_is_any_of_one_separator:
  "count_list s sep = 1 \<Longrightarrow>
   split_is_any_of sep s = [takeWhile (\<lambda>c. c \<noteq> sep) s, tl (dropWhile (\<lambda>c. c \<noteq> sep) s)]"
  by (induction s) (auto simp: split_is_any_of_no_separator split: if_splits)

lemma split_two_parts_iff:
  "length (split_is_any_of (CHR ''='') tok) = 2 \<longleftrightarrow> separators tok = 1"
  by (simp add: split_is_any_of_length separators_def)

lemma split_token:
  "separators tok = 1 \<Longrightarrow> split_is_any_of (CHR ''='') tok = [key_of tok, value_of tok]"
  by (simp add: separators_def key_of_def value_of_def split_is_any_of_one_separator)

lemma put_items_None_iff:
  "put_items props items = None \<longleftrightarrow> (\<exists>tok \<in> set items. separators tok \<noteq> 1)"
  by (induction items arbitrary: props) (auto simp: Let_def split_two_parts_iff)

lemma put_items_Some:
  "\<forall>tok \<in> set items. separators tok = 1 \<Longrightarrow> put_items props items = Some (put_tokens props items)"
  by (induction items arbitrary: props)
     (auto simp: Let_def split_two_parts_iff split_token put_tokens_def put_def)

lemma print_topics_eq:
  "print_topics stdout ts = stdout @ concat (map (\<lambda>t. t @ endl) ts)"
  by (induction ts arbitrary: stdout) auto



lemma main_request:
  "ParseArguments env argc cmdline = (printed, Inr (Some args)) \<Longrightarrow>
   main env argc cmdline = dispatch env printed args"
  by (simp add: main_def)

lemma ParseArguments_help:
  "vm_help vm \<or> argc = 1 \<Longrightarrow> ParseArguments env argc (Inr vm) = (usage env, Inr None)"
  by (auto simp: ParseArguments_def count_flag_def)

lemma ParseArguments_required:
  "\<not> vm_help vm \<Longrightarrow> argc \<noteq> 1 \<Longrightarrow> vm_bootstrap_server vm = None \<Longrightarrow>
   ParseArguments env argc (Inr vm) = ([], Inl (required_option ''bootstrap-server''))"
  by (simp add: ParseArguments_def count_flag_def notify_def)

lemma notify_request:
  "vm_bootstrap_server vm = Some b \<Longrightarrow>
   notify vm Arguments_init = Inr (request Create b vm)"
  by (simp add: notify_def request_def Arguments_init_def split: option.splits)

lemma ParseArguments_choose_one:
  "\<not> vm_help vm \<Longrightarrow> argc \<noteq> 1 \<Longrightarrow> vm_bootstrap_server vm = Some b \<Longrightarrow> selectors vm \<noteq> 1 \<Longrightarrow>
   ParseArguments env argc (Inr vm) = ([], Inl (invalid_argument choose_one_message))"
  by (simp add: ParseArguments_def count_flag_def notify_request selectors_def
      choose_one_message_def)

lemma ParseArguments_check:
  "\<not> vm_help vm \<Longrightarrow> argc \<noteq> 1 \<Longrightarrow> vm_bootstrap_server vm = Some b \<Longrightarrow> selectors vm = 1 \<Longrightarrow>
   ParseArguments env argc (Inr vm) =
     ([], case check_operation vm (request (selected vm) b vm) of
            Inl e \<Rightarrow> Inl e | Inr args \<Rightarrow> Inr (Some args))"
  by (simp add: ParseArguments_def notify_request selectors_def selected_def count_flag_def
      request_def split: sum.splits)

lemma check_operation_accepts:
  "table_ok op vm \<Longrightarrow> check_operation vm (request op b vm) = Inr (request op b vm)"
  by (cases op) (auto simp: check_operation_def table_ok_def request_def count_value_def)

lemma check_operation_rejects:
  "\<not> table_ok op vm \<Longrightarrow>
   \<exists>m. check_operation vm (request op b vm) = Inl (invalid_argument m) \<and> m \<noteq> choose_one_message"
  by (cases op)
     (auto simp: check_operation_def table_ok_def request_def count_value_def
        choose_one_message_def)

lemma selects_selected:
  "selects vm op \<Longrightarrow> selectors vm = 1 \<and> selected vm = op"
  by (cases op) (auto simp: selects_def selectors_def selected_def count_flag_def)

lemma selectors_selects:
  "selectors vm = 1 \<Longrightarrow> selects vm (selected vm)"
  by (auto simp: selects_def selectors_def selected_def count_flag_def split: if_splits)

section \<open>The claims\<close>

text \<open>The definitions to unfold when a run is evaluated on an example.\<close>

lemmas example_defs =
  env_example_def vm_empty_def vm_list_only_def vm_scenario1_def vm_help_list_topic_def
  vm_list_topic_def vm_scenario2_def vm_scenario3_def vm_scenario4_def vm_empty_value_def
  vm_two_separators_def vm_create_zero_def vm_create_empty_value_def env_unreachable_def
  vm_create_negative_def vm_no_selector_bad_token_def vm_help_bad_token_def
  vm_help_scenario4_def vm_create_no_topic_def rejected_help_unknown_option_def
  rejected_help_bad_number_def

lemmas program_defs =
  main_def dispatch_def ParseArguments_def check_operation_def notify_def Arguments_init_def
  count_flag_def count_value_def put_def EXIT_SUCCESS_def EXIT_FAILURE_def

text \<open>What a returned request says about the command line.\<close>

lemma ParseArguments_request:
  assumes "ParseArguments env argc (Inr vm) = (printed, Inr (Some args))"
  shows "\<not> vm_help vm \<and> argc \<noteq> 1 \<and> printed = [] \<and> selectors vm = 1 \<and> table_ok (selected vm) vm \<and>
         (\<exists>b. vm_bootstrap_server vm = Some b \<and> args = request (selected vm) b vm)"
proof -
  have nohelp: "\<not> vm_help vm" "argc \<noteq> 1"
    using assms ParseArguments_help [of vm argc env] by auto
  obtain b where b: "vm_bootstrap_server vm = Some b"
    using assms nohelp ParseArguments_required [of vm argc env] by (cases "vm_bootstrap_server vm") auto
  have one: "selectors vm = 1"
    using assms nohelp b ParseArguments_choose_one [of vm argc b env] by auto
  have eq: "ParseArguments env argc (Inr vm) =
     ([], case check_operation vm (request (selected vm) b vm) of
            Inl e \<Rightarrow> Inl e | Inr args \<Rightarrow> Inr (Some args))"
    using nohelp b one by (rule ParseArguments_check)
  have ok: "table_ok (selected vm) vm"
    using assms eq check_operation_rejects [of "selected vm" vm b] by (cases "table_ok (selected vm) vm") auto
  have "args = request (selected vm) b vm" "printed = []"
    using assms eq check_operation_accepts [OF ok, of b] by auto
  with nohelp one ok b show ?thesis by simp
qed

subsection \<open>The table of the operations\<close>

text \<open>
  C1, as amended. For every command line that the library parsed, that is no help
  invocation (no help option, and \<open>argc\<close> is not 1) and that selects exactly one
  operation \<open>op\<close>: if the options violate the table of \<open>op\<close> (List with topic,
  partitions, replication-factor or topic-props; Create without topic, partitions or
  replication-factor; Delete without topic, or with partitions, replication-factor or
  topic-props), or if \<^verbatim>\<open>--bootstrap-server\<close> is absent, the parser raises a usage error;
  if they satisfy the table and \<^verbatim>\<open>--bootstrap-server\<close> is supplied, the parser prints
  nothing and returns the request for \<open>op\<close> with the values supplied.
\<close>

theorem operation_table_enforced:
  assumes "\<not> vm_help vm" and "argc \<noteq> 1" and "selects vm op"
  shows "(\<not> table_ok op vm \<or> vm_bootstrap_server vm = None \<longrightarrow>
            isl (snd (ParseArguments env argc (Inr vm)))) \<and>
         (table_ok op vm \<and> vm_bootstrap_server vm = Some b \<longrightarrow>
            ParseArguments env argc (Inr vm) = ([], Inr (Some (request op b vm))))"
proof -
  have sel: "selectors vm = 1" "selected vm = op"
    using assms(3) selects_selected by auto
  show ?thesis
  proof (cases "vm_bootstrap_server vm")
    case None
    then show ?thesis
      using assms(1,2) by (simp add: ParseArguments_required)
  next
    case (Some b')
    have eq: "ParseArguments env argc (Inr vm) =
       ([], case check_operation vm (request op b' vm) of
              Inl e \<Rightarrow> Inl e | Inr args \<Rightarrow> Inr (Some args))"
      using ParseArguments_check [OF assms(1,2) Some sel(1), of env] sel(2) by simp
    show ?thesis
    proof (cases "table_ok op vm")
      case True
      then show ?thesis using eq Some by (simp add: check_operation_accepts)
    next
      case False
      then show ?thesis using eq check_operation_rejects [OF False, of b'] by auto
    qed
  qed
qed

text \<open>The theorem at the third scenario (Delete with partitions: rejected) and at the
  second (Create with its three options: accepted).\<close>

theorem operation_table_enforced_witness:
  "isl (snd (ParseArguments env_example 8 (Inr vm_scenario3))) \<and>
   ParseArguments env_example 10 (Inr vm_scenario2) =
     ([], Inr (Some (request Create ''broker:9092'' vm_scenario2)))"
proof -
  have a: "\<not> vm_help vm_scenario3" "(8::int) \<noteq> 1" "selects vm_scenario3 Delete"
    "\<not> table_ok Delete vm_scenario3"
    by (simp_all add: example_defs selects_def table_ok_def)
  have b: "\<not> vm_help vm_scenario2" "(10::int) \<noteq> 1" "selects vm_scenario2 Create"
    "table_ok Create vm_scenario2"
    "vm_bootstrap_server vm_scenario2 = Some ''broker:9092''"
    by (simp_all add: example_defs selects_def table_ok_def)
  show ?thesis
    using operation_table_enforced [OF a(1,2,3), of env_example "''broker:9092''"] a(4)
      operation_table_enforced [OF b(1,2,3), of env_example "''broker:9092''"] b(4,5)
    by auto
qed

text \<open>
  C1 as it was stated fails twice. \<^verbatim>\<open>--list\<close> alone selects List and satisfies the table
  of List, and is rejected, for the missing \<^verbatim>\<open>--bootstrap-server\<close>. And
  \<^verbatim>\<open>--help --bootstrap-server broker:9092 --list --topic t1\<close> selects List and supplies a
  topic, and is not rejected: the parser shows the help.
\<close>

theorem operation_table_counterexample:
  "selects vm_list_only List \<and> table_ok List vm_list_only \<and>
   snd (ParseArguments env_example 2 (Inr vm_list_only)) = Inl (required_option ''bootstrap-server'') \<and>
   selects vm_help_list_topic List \<and> \<not> table_ok List vm_help_list_topic \<and>
   snd (ParseArguments env_example 7 (Inr vm_help_list_topic)) = Inr None"
  by (simp add: example_defs selects_def table_ok_def program_defs)

subsection \<open>The selection of the operation\<close>

text \<open>
  C2, as amended. For every command line that the library parsed and that is no help
  invocation: if the number of selectors among \<^verbatim>\<open>--list\<close>, \<^verbatim>\<open>--create\<close>, \<^verbatim>\<open>--delete\<close> is
  zero or more than one, the parser raises a usage error; if it is one and
  \<^verbatim>\<open>--bootstrap-server\<close> is supplied, the outcome is that of the check of the selected
  operation. A usage error is raised exactly when the number of selectors is not one,
  or \<^verbatim>\<open>--bootstrap-server\<close> is absent, or the table of the selected operation is violated;
  it carries the message of line 84 exactly when the number of selectors is not one and
  \<^verbatim>\<open>--bootstrap-server\<close> is supplied.
\<close>

theorem operation_selection:
  assumes "\<not> vm_help vm" and "argc \<noteq> 1"
  shows "(selectors vm \<noteq> 1 \<longrightarrow> isl (snd (ParseArguments env argc (Inr vm)))) \<and>
         (selectors vm = 1 \<and> vm_bootstrap_server vm = Some b \<longrightarrow>
            snd (ParseArguments env argc (Inr vm)) =
              (case check_operation vm (request (selected vm) b vm) of
                 Inl e \<Rightarrow> Inl e | Inr args \<Rightarrow> Inr (Some args))) \<and>
         (isl (snd (ParseArguments env argc (Inr vm))) \<longleftrightarrow>
            selectors vm \<noteq> 1 \<or> vm_bootstrap_server vm = None \<or> \<not> table_ok (selected vm) vm) \<and>
         (snd (ParseArguments env argc (Inr vm)) = Inl (invalid_argument choose_one_message) \<longleftrightarrow>
            selectors vm \<noteq> 1 \<and> vm_bootstrap_server vm \<noteq> None)"
proof (cases "vm_bootstrap_server vm")
  case None
  then show ?thesis
    using assms by (simp add: ParseArguments_required)
next
  case (Some b')
  show ?thesis
  proof (cases "selectors vm = 1")
    case False
    then show ?thesis
      using assms Some by (simp add: ParseArguments_choose_one)
  next
    case True
    have eq: "ParseArguments env argc (Inr vm) =
       ([], case check_operation vm (request (selected vm) b' vm) of
              Inl e \<Rightarrow> Inl e | Inr args \<Rightarrow> Inr (Some args))"
      using assms Some True by (rule ParseArguments_check)
    show ?thesis
    proof (cases "table_ok (selected vm) vm")
      case ok: True
      then show ?thesis using eq Some True by (simp add: check_operation_accepts)
    next
      case bad: False
      then show ?thesis using eq Some True check_operation_rejects [OF bad, of b'] by auto
    qed
  qed
qed

text \<open>The theorem at \<^verbatim>\<open>--bootstrap-server broker:9092\<close> (no selector) and at the first
  scenario.\<close>

theorem operation_selection_witness:
  "isl (snd (ParseArguments env_example 3 (Inr (vm_empty\<lparr>vm_bootstrap_server := Some ''broker:9092''\<rparr>)))) \<and>
   snd (ParseArguments env_example 4 (Inr vm_scenario1)) = Inr (Some (request List ''broker:9092'' vm_scenario1))"
proof -
  have a: "\<not> vm_help (vm_empty\<lparr>vm_bootstrap_server := Some ''broker:9092''\<rparr>)" "(3::int) \<noteq> 1"
    "selectors (vm_empty\<lparr>vm_bootstrap_server := Some ''broker:9092''\<rparr>) \<noteq> 1"
    by (simp_all add: example_defs selectors_def count_flag_def)
  have b: "\<not> vm_help vm_scenario1" "selectors vm_scenario1 = 1"
    "vm_bootstrap_server vm_scenario1 = Some ''broker:9092''" "selected vm_scenario1 = List"
    "check_operation vm_scenario1 (request List ''broker:9092'' vm_scenario1) =
       Inr (request List ''broker:9092'' vm_scenario1)"
    "(4::int) \<noteq> 1"
    by (simp_all add: example_defs selectors_def count_flag_def selected_def check_operation_def
        request_def count_value_def)
  show ?thesis
    using operation_selection [OF a(1,2), of env_example "''broker:9092''"] a(3)
      operation_selection [OF b(1,6), of env_example "''broker:9092''"] b(2,3,4,5)
    by simp
qed

text \<open>
  C2 as it was stated fails: with exactly one selector and no help,
  \<^verbatim>\<open>--bootstrap-server broker:9092 --list --topic t1\<close> is a usage error (of the table of
  List), and \<^verbatim>\<open>--list\<close> alone is a usage error that is raised before the check of the
  operation, for the missing \<^verbatim>\<open>--bootstrap-server\<close>.
\<close>

theorem operation_selection_counterexample:
  "\<not> vm_help vm_list_topic \<and> selectors vm_list_topic = 1 \<and>
   snd (ParseArguments env_example 6 (Inr vm_list_topic)) = Inl (invalid_argument
     ''The --list operation CANNOT take any '--topic/--partitions/--replication-factor/--topic-props' option!'') \<and>
   \<not> vm_help vm_list_only \<and> selectors vm_list_only = 1 \<and>
   snd (ParseArguments env_example 2 (Inr vm_list_only)) = Inl (required_option ''bootstrap-server'')"
  by (simp add: example_defs selectors_def program_defs)

subsection \<open>The property tokens\<close>

lemma dispatch_admin_config_malformed:
  "\<exists>tok \<in> set (adminConfig args). separators tok \<noteq> 1 \<Longrightarrow>
   dispatch env printed args =
     \<lparr>out = printed, err = admin_config_message @ endl, status = Exited EXIT_FAILURE, calls = []\<rparr>"
  using put_items_None_iff [of "put Map.empty (BOOTSTRAP_SERVERS env) (broker args)" "adminConfig args"]
  by (simp add: dispatch_def admin_config_message_def)

lemma dispatch_admin_config_put:
  "\<forall>tok \<in> set (adminConfig args). separators tok = 1 \<Longrightarrow>
   put_items (put Map.empty (BOOTSTRAP_SERVERS env) (broker args)) (adminConfig args) =
     Some (put_tokens [BOOTSTRAP_SERVERS env \<mapsto> broker args] (adminConfig args))"
  by (simp add: put_items_Some put_def)

lemma dispatch_constructor_throws:
  assumes "\<forall>tok \<in> set (adminConfig args). separators tok = 1"
    and "AdminClient_throws env (put_tokens [BOOTSTRAP_SERVERS env \<mapsto> broker args] (adminConfig args))"
  shows "dispatch env printed args =
     \<lparr>out = printed, err = [], status = Aborted,
      calls = [AdminClient_new (put_tokens [BOOTSTRAP_SERVERS env \<mapsto> broker args] (adminConfig args))]\<rparr>"
  using assms(2) dispatch_admin_config_put [OF assms(1), of env]
  by (simp add: dispatch_def)

lemma dispatch_topic_props_malformed:
  assumes "\<forall>tok \<in> set (adminConfig args). separators tok = 1"
    and "\<not> AdminClient_throws env (put_tokens [BOOTSTRAP_SERVERS env \<mapsto> broker args] (adminConfig args))"
    and "opType args = Create"
    and "\<exists>tok \<in> set (topicProps args). separators tok \<noteq> 1"
  shows "dispatch env printed args =
     \<lparr>out = printed, err = topic_props_message @ endl, status = Exited EXIT_FAILURE,
      calls = [AdminClient_new (put_tokens [BOOTSTRAP_SERVERS env \<mapsto> broker args] (adminConfig args))]\<rparr>"
proof -
  have "put_items Map.empty (topicProps args) = None"
    using assms(4) by (simp add: put_items_None_iff)
  then show ?thesis
    using assms(2,3) dispatch_admin_config_put [OF assms(1), of env]
    by (simp add: dispatch_def topic_props_message_def)
qed

lemma dispatch_create:
  assumes "\<forall>tok \<in> set (adminConfig args). separators tok = 1"
    and "\<not> AdminClient_throws env (put_tokens [BOOTSTRAP_SERVERS env \<mapsto> broker args] (adminConfig args))"
    and "opType args = Create"
    and "\<forall>tok \<in> set (topicProps args). separators tok = 1"
  shows "calls (dispatch env printed args) =
     [AdminClient_new (put_tokens [BOOTSTRAP_SERVERS env \<mapsto> broker args] (adminConfig args)),
      createTopics_call [topic args] (partitions args) (replicationFactor args)
        (put_tokens Map.empty (topicProps args))
        (createTopics env (put_tokens [BOOTSTRAP_SERVERS env \<mapsto> broker args] (adminConfig args))
           [topic args] (partitions args) (replicationFactor args)
           (put_tokens Map.empty (topicProps args)))]"
  using assms(2,3) dispatch_admin_config_put [OF assms(1), of env]
    put_items_Some [OF assms(4), of Map.empty]
  by (simp add: dispatch_def Let_def)

lemma dispatch_session:
  assumes "\<forall>tok \<in> set (adminConfig args). separators tok = 1"
  shows "\<exists>rest. calls (dispatch env printed args) =
     AdminClient_new (put_tokens [BOOTSTRAP_SERVERS env \<mapsto> broker args] (adminConfig args)) # rest"
  using dispatch_admin_config_put [OF assms, of env]
  by (simp add: dispatch_def Let_def split: option.splits)


lemma run_empty_value:
  "main env_example 6 (Inr vm_empty_value) =
     \<lparr>out = ''a'' @ endl @ ''b'' @ endl, err = [], status = Exited 0,
      calls = [AdminClient_new [''bootstrap.servers'' \<mapsto> ''broker:9092'', ''a'' \<mapsto> []],
        listTopics_call \<lparr>error = False, detail = [], topics = [''a'', ''b'']\<rparr>]\<rparr>"
  by (simp add: example_defs program_defs)

lemma run_no_selector_bad_token:
  "main env_example 5 (Inr vm_no_selector_bad_token) =
     \<lparr>out = choose_one_message @ endl, err = [], status = Exited 1, calls = []\<rparr>"
  by (simp add: example_defs program_defs choose_one_message_def)


lemma run_scenario3:
  "main env_example 8 (Inr vm_scenario3) =
     \<lparr>out = ''The --delete operation CANNOT take any of '--partitions/--replication-factor/--topic-props' options!'' @ endl,
      err = [], status = Exited 1, calls = []\<rparr>"
  by (simp add: example_defs program_defs)

lemma run_scenario4:
  "main env_example 12 (Inr vm_scenario4) =
     \<lparr>out = [], err = topic_props_message @ endl, status = Exited 1,
      calls = [AdminClient_new [''bootstrap.servers'' \<mapsto> ''broker:9092'']]\<rparr>"
  by (simp add: example_defs program_defs topic_props_message_def)

lemma run_scenario4_unreachable:
  "main env_unreachable 12 (Inr vm_scenario4) =
     \<lparr>out = [], err = [], status = Aborted,
      calls = [AdminClient_new [''bootstrap.servers'' \<mapsto> ''broker:9092'']]\<rparr>"
  by (simp add: example_defs program_defs)

lemma run_create_empty_value:
  "main env_example 12 (Inr vm_create_empty_value) =
     \<lparr>out = [], err = [], status = Exited 0,
      calls = [AdminClient_new [''bootstrap.servers'' \<mapsto> ''broker:9092''],
        createTopics_call [''t1''] 3 2 [''a'' \<mapsto> []] \<lparr>error = False, detail = []\<rparr>]\<rparr>"
  by (simp add: example_defs program_defs)

lemma run_help_scenario4:
  "main env_example 13 (Inr vm_help_scenario4) =
     \<lparr>out = usage env_example, err = [], status = Exited 0, calls = []\<rparr>"
  by (simp add: example_defs program_defs)

lemma run_create_no_topic:
  "main env_example 6 (Inr vm_create_no_topic) =
     \<lparr>out = ''The --create operation MUST be with '--topic/--partitions/--replication-factor' options!'' @ endl,
      err = [], status = Exited 1, calls = []\<rparr>"
  by (simp add: example_defs program_defs)

lemma example_tokens:
  "vm_topic_props vm_scenario4 = Some [''retention.ms'']"
  "vm_admin_config vm_empty_value = Some [''a='']"
  "vm_admin_config vm_help_bad_token = Some [''x'']"
  by (simp_all add: example_defs)

lemma malformed_examples:
  "spec_malformed ''a=''" "spec_malformed ''x''" "spec_malformed ''retention.ms''"
  by (simp_all add: spec_malformed_def separators_def key_of_def value_of_def)

text \<open>
  C3, as amended. For every invocation whose arguments the parser accepted and returned
  as a request: if a token of \<^verbatim>\<open>--admin-config\<close> does not contain exactly one \<^verbatim>\<open>=\<close>, the
  process writes the message that names \<^verbatim>\<open>--admin-config\<close> to the error stream and exits
  with status 1, before the admin client is constructed. If every token of
  \<^verbatim>\<open>--admin-config\<close> contains exactly one \<^verbatim>\<open>=\<close>, the tokens are accepted, with an empty key
  or an empty value too: the constructor of the admin client is called with the
  bootstrap property and, for each token, the text before the \<^verbatim>\<open>=\<close> mapped to the text
  after it. If that constructor throws, the process is aborted. If it does not throw
  and the operation is Create, then a token of \<^verbatim>\<open>--topic-props\<close> that does not contain
  exactly one \<^verbatim>\<open>=\<close> makes the process write the message that names \<^verbatim>\<open>--topic-props\<close> and
  exit with status 1, and otherwise the topic is created with the map of the
  \<^verbatim>\<open>--topic-props\<close> tokens, built the same way.
\<close>

theorem property_tokens:
  assumes "ParseArguments env argc cmdline = (printed, Inr (Some args))"
  shows "((\<exists>tok \<in> set (adminConfig args). separators tok \<noteq> 1) \<longrightarrow>
            err (main env argc cmdline) = admin_config_message @ endl \<and>
            status (main env argc cmdline) = Exited 1 \<and> calls (main env argc cmdline) = []) \<and>
         ((\<forall>tok \<in> set (adminConfig args). separators tok = 1) \<longrightarrow>
            (\<exists>rest. calls (main env argc cmdline) =
               AdminClient_new (put_tokens [BOOTSTRAP_SERVERS env \<mapsto> broker args] (adminConfig args))
                 # rest)) \<and>
         ((\<forall>tok \<in> set (adminConfig args). separators tok = 1) \<and>
          AdminClient_throws env
            (put_tokens [BOOTSTRAP_SERVERS env \<mapsto> broker args] (adminConfig args)) \<longrightarrow>
            status (main env argc cmdline) = Aborted) \<and>
         ((\<forall>tok \<in> set (adminConfig args). separators tok = 1) \<and>
          \<not> AdminClient_throws env
              (put_tokens [BOOTSTRAP_SERVERS env \<mapsto> broker args] (adminConfig args)) \<and>
          opType args = Create \<and> (\<exists>tok \<in> set (topicProps args). separators tok \<noteq> 1) \<longrightarrow>
            err (main env argc cmdline) = topic_props_message @ endl \<and>
            status (main env argc cmdline) = Exited 1) \<and>
         ((\<forall>tok \<in> set (adminConfig args). separators tok = 1) \<and>
          \<not> AdminClient_throws env
              (put_tokens [BOOTSTRAP_SERVERS env \<mapsto> broker args] (adminConfig args)) \<and>
          opType args = Create \<and> (\<forall>tok \<in> set (topicProps args). separators tok = 1) \<longrightarrow>
            (\<exists>conf r. calls (main env argc cmdline) =
               [AdminClient_new conf,
                createTopics_call [topic args] (partitions args) (replicationFactor args)
                  (put_tokens Map.empty (topicProps args)) r]))"
proof -
  have m: "main env argc cmdline = dispatch env printed args"
    using assms by (rule main_request)
  have 1: "(\<exists>tok \<in> set (adminConfig args). separators tok \<noteq> 1) \<longrightarrow>
            err (main env argc cmdline) = admin_config_message @ endl \<and>
            status (main env argc cmdline) = Exited 1 \<and> calls (main env argc cmdline) = []"
    by (simp add: m dispatch_admin_config_malformed EXIT_FAILURE_def)
  have 2: "(\<forall>tok \<in> set (adminConfig args). separators tok = 1) \<longrightarrow>
            (\<exists>rest. calls (main env argc cmdline) =
               AdminClient_new (put_tokens [BOOTSTRAP_SERVERS env \<mapsto> broker args] (adminConfig args))
                 # rest)"
    using dispatch_session [of args env printed] by (simp add: m)
  have 3: "(\<forall>tok \<in> set (adminConfig args). separators tok = 1) \<and>
          AdminClient_throws env
            (put_tokens [BOOTSTRAP_SERVERS env \<mapsto> broker args] (adminConfig args)) \<longrightarrow>
            status (main env argc cmdline) = Aborted"
    by (simp add: m dispatch_constructor_throws)
  have 4: "(\<forall>tok \<in> set (adminConfig args). separators tok = 1) \<and>
          \<not> AdminClient_throws env
              (put_tokens [BOOTSTRAP_SERVERS env \<mapsto> broker args] (adminConfig args)) \<and>
          opType args = Create \<and> (\<exists>tok \<in> set (topicProps args). separators tok \<noteq> 1) \<longrightarrow>
            err (main env argc cmdline) = topic_props_message @ endl \<and>
            status (main env argc cmdline) = Exited 1"
    by (simp add: m dispatch_topic_props_malformed EXIT_FAILURE_def)
  have 5: "(\<forall>tok \<in> set (adminConfig args). separators tok = 1) \<and>
          \<not> AdminClient_throws env
              (put_tokens [BOOTSTRAP_SERVERS env \<mapsto> broker args] (adminConfig args)) \<and>
          opType args = Create \<and> (\<forall>tok \<in> set (topicProps args). separators tok = 1) \<longrightarrow>
            (\<exists>conf r. calls (main env argc cmdline) =
               [AdminClient_new conf,
                createTopics_call [topic args] (partitions args) (replicationFactor args)
                  (put_tokens Map.empty (topicProps args)) r])"
    using dispatch_create [of args env printed] by (simp add: m)
  from 1 2 3 4 5 show ?thesis by blast
qed

text \<open>The parser on some of the example command lines; it does not depend on the
  environment.\<close>

lemma ParseArguments_scenario4:
  "ParseArguments env 12 (Inr vm_scenario4) =
     ([], Inr (Some (request Create ''broker:9092'' vm_scenario4)))"
  by (simp add: example_defs program_defs request_def)

lemma ParseArguments_two_separators:
  "ParseArguments env 6 (Inr vm_two_separators) =
     ([], Inr (Some (request List ''broker:9092'' vm_two_separators)))"
  by (simp add: example_defs program_defs request_def)

text \<open>The theorem at \<^verbatim>\<open>--admin-config a=b=c\<close>, at the fourth scenario
  (\<^verbatim>\<open>--topic-props retention.ms\<close>), and at the fourth scenario where the constructor
  throws.\<close>

theorem property_tokens_witness:
  "err (main env_example 6 (Inr vm_two_separators)) = admin_config_message @ endl \<and>
   status (main env_example 6 (Inr vm_two_separators)) = Exited 1 \<and>
   calls (main env_example 6 (Inr vm_two_separators)) = [] \<and>
   err (main env_example 12 (Inr vm_scenario4)) = topic_props_message @ endl \<and>
   status (main env_example 12 (Inr vm_scenario4)) = Exited 1 \<and>
   status (main env_unreachable 12 (Inr vm_scenario4)) = Aborted"
proof -
  let ?list = "request List ''broker:9092'' vm_two_separators"
  let ?create = "request Create ''broker:9092'' vm_scenario4"
  have a: "\<exists>tok \<in> set (adminConfig ?list). separators tok \<noteq> 1"
    by (simp add: request_def example_defs separators_def)
  have b: "(\<forall>tok \<in> set (adminConfig ?create). separators tok = 1) \<and>
      AdminClient_throws env_unreachable
        (put_tokens [BOOTSTRAP_SERVERS env_unreachable \<mapsto> broker ?create] (adminConfig ?create))"
    by (simp add: request_def example_defs)
  have c: "(\<forall>tok \<in> set (adminConfig ?create). separators tok = 1) \<and>
      \<not> AdminClient_throws env_example
        (put_tokens [BOOTSTRAP_SERVERS env_example \<mapsto> broker ?create] (adminConfig ?create)) \<and>
      opType ?create = Create \<and> (\<exists>tok \<in> set (topicProps ?create). separators tok \<noteq> 1)"
    by (simp add: request_def example_defs separators_def)
  note first = property_tokens [OF ParseArguments_two_separators, where env = env_example,
      THEN conjunct1, THEN mp, OF a]
  note third = property_tokens [OF ParseArguments_scenario4, where env = env_unreachable,
      THEN conjunct2, THEN conjunct2, THEN conjunct1, THEN mp, OF b]
  note fourth = property_tokens [OF ParseArguments_scenario4, where env = env_example,
      THEN conjunct2, THEN conjunct2, THEN conjunct2, THEN conjunct1, THEN mp, OF c]
  from first third fourth show ?thesis
    by (simp only: simp_thms)
qed

text \<open>
  C3 as it was stated fails three times. A token with an empty value is accepted: with
  \<^verbatim>\<open>--admin-config a=\<close> the listing runs and exits with status 0, nothing is written to
  the error stream, and the admin client was constructed with the key \<^verbatim>\<open>a\<close> mapped to
  the empty string. A token without \<^verbatim>\<open>=\<close> is not reported when the parser does not
  accept the arguments: \<^verbatim>\<open>--bootstrap-server broker:9092 --admin-config x\<close> ends with the
  message of line 84 on the standard output. And at the fourth scenario the process is
  aborted, without the message for \<^verbatim>\<open>--topic-props\<close>, when the constructor of the admin
  client throws.
\<close>

theorem property_tokens_counterexample:
  "spec_malformed ''a='' \<and>
   status (main env_example 6 (Inr vm_empty_value)) = Exited 0 \<and>
   err (main env_example 6 (Inr vm_empty_value)) = [] \<and>
   calls (main env_example 6 (Inr vm_empty_value)) =
     [AdminClient_new [''bootstrap.servers'' \<mapsto> ''broker:9092'', ''a'' \<mapsto> []],
      listTopics_call \<lparr>error = False, detail = [], topics = [''a'', ''b'']\<rparr>] \<and>
   spec_malformed ''x'' \<and>
   out (main env_example 5 (Inr vm_no_selector_bad_token)) = choose_one_message @ endl \<and>
   err (main env_example 5 (Inr vm_no_selector_bad_token)) = [] \<and>
   status (main env_unreachable 12 (Inr vm_scenario4)) = Aborted \<and>
   err (main env_unreachable 12 (Inr vm_scenario4)) = []"
  by (simp add: run_empty_value run_no_selector_bad_token run_scenario4_unreachable
      malformed_examples)

text \<open>
  C4, as amended. For every invocation that the parser accepted as a Create request
  and that has a token of \<^verbatim>\<open>--topic-props\<close> without exactly one \<^verbatim>\<open>=\<close>, the process calls
  no operation of the admin client and does not exit with status 0. When a token of
  \<^verbatim>\<open>--admin-config\<close> is malformed, the message names \<^verbatim>\<open>--admin-config\<close>, the status is 1 and
  nothing is constructed. When every token of \<^verbatim>\<open>--admin-config\<close> is well formed, the
  constructor of the admin client is called before the tokens of \<^verbatim>\<open>--topic-props\<close> are
  examined, and it is the only call: if it does not throw, the message names
  \<^verbatim>\<open>--topic-props\<close> and the status is 1; if it throws, the process is aborted.
\<close>

theorem topic_props_failure:
  assumes "ParseArguments env argc cmdline = (printed, Inr (Some args))"
    and "opType args = Create"
    and "\<exists>tok \<in> set (topicProps args). separators tok \<noteq> 1"
  shows "\<not> list_ex is_operation (calls (main env argc cmdline)) \<and>
         status (main env argc cmdline) \<noteq> Exited 0 \<and>
         ((\<exists>tok \<in> set (adminConfig args). separators tok \<noteq> 1) \<longrightarrow>
            status (main env argc cmdline) = Exited 1 \<and>
            err (main env argc cmdline) = admin_config_message @ endl \<and>
            calls (main env argc cmdline) = []) \<and>
         ((\<forall>tok \<in> set (adminConfig args). separators tok = 1) \<longrightarrow>
            calls (main env argc cmdline) =
              [AdminClient_new (put_tokens [BOOTSTRAP_SERVERS env \<mapsto> broker args] (adminConfig args))] \<and>
            (if AdminClient_throws env
                  (put_tokens [BOOTSTRAP_SERVERS env \<mapsto> broker args] (adminConfig args))
             then status (main env argc cmdline) = Aborted
             else status (main env argc cmdline) = Exited 1 \<and>
                  err (main env argc cmdline) = topic_props_message @ endl))"
proof -
  have m: "main env argc cmdline = dispatch env printed args"
    using assms(1) by (rule main_request)
  show ?thesis
  proof (cases "\<forall>tok \<in> set (adminConfig args). separators tok = 1")
    case True
    show ?thesis
    proof (cases "AdminClient_throws env
        (put_tokens [BOOTSTRAP_SERVERS env \<mapsto> broker args] (adminConfig args))")
      case throws: True
      from dispatch_constructor_throws [OF True throws, of printed] True throws show ?thesis
        by (simp add: m)
    next
      case False
      from dispatch_topic_props_malformed [OF True False assms(2,3), of printed] True False
      show ?thesis
        by (simp add: m EXIT_FAILURE_def)
    qed
  next
    case False
    then have "\<exists>tok \<in> set (adminConfig args). separators tok \<noteq> 1" by simp
    from dispatch_admin_config_malformed [OF this, of env printed] False show ?thesis
      by (simp add: m EXIT_FAILURE_def)
  qed
qed

text \<open>The theorem at the fourth scenario, with a constructor that returns and with one
  that throws.\<close>

theorem topic_props_failure_witness:
  "\<not> list_ex is_operation (calls (main env_example 12 (Inr vm_scenario4))) \<and>
   status (main env_example 12 (Inr vm_scenario4)) = Exited 1 \<and>
   err (main env_example 12 (Inr vm_scenario4)) = topic_props_message @ endl \<and>
   \<not> list_ex is_operation (calls (main env_unreachable 12 (Inr vm_scenario4))) \<and>
   status (main env_unreachable 12 (Inr vm_scenario4)) = Aborted"
proof -
  let ?args = "request Create ''broker:9092'' vm_scenario4"
  have admin: "\<forall>tok \<in> set (adminConfig ?args). separators tok = 1"
    by (simp add: request_def example_defs)
  have create: "opType ?args = Create"
    by (simp add: request_def)
  have bad: "\<exists>tok \<in> set (topicProps ?args). separators tok \<noteq> 1"
    by (simp add: request_def example_defs separators_def)
  have returns: "AdminClient_throws env_example conf = False" for conf
    by (simp add: env_example_def)
  have throws: "AdminClient_throws env_unreachable conf = True" for conf
    by (simp add: env_unreachable_def)
  note t1 = topic_props_failure [OF ParseArguments_scenario4 create bad, where env = env_example]
  note t2 = topic_props_failure [OF ParseArguments_scenario4 create bad, where env = env_unreachable]
  note last1 = t1 [THEN conjunct2, THEN conjunct2, THEN conjunct2, THEN mp, OF admin,
      THEN conjunct2, unfolded returns if_False]
  note last2 = t2 [THEN conjunct2, THEN conjunct2, THEN conjunct2, THEN mp, OF admin,
      THEN conjunct2, unfolded throws if_True]
  from t1 [THEN conjunct1] t2 [THEN conjunct1] last1 last2 show ?thesis
    by (simp only: simp_thms)
qed

text \<open>
  C4 as it was stated fails. At the fourth scenario of the specification the token
  \<^verbatim>\<open>retention.ms\<close> is reported with status 1 after the admin client has been constructed
  with the bootstrap property (line 150 precedes the loop of lines 169 to 179), and when
  that constructor throws the process is aborted instead. A token of \<^verbatim>\<open>--topic-props\<close>
  that is malformed by its empty value, \<^verbatim>\<open>a=\<close>, is not reported: the topic is created with
  the key \<^verbatim>\<open>a\<close> mapped to the empty string. And a Create invocation that the parser does
  not accept never reaches the tokens: the fourth scenario with \<^verbatim>\<open>--help\<close> exits with
  status 0, and \<^verbatim>\<open>--bootstrap-server broker:9092 --create --topic-props retention.ms\<close> ends
  with the message of line 100 on the standard output.
\<close>

theorem session_before_topic_props_counterexample:
  "vm_topic_props vm_scenario4 = Some [''retention.ms''] \<and> spec_malformed ''retention.ms'' \<and>
   calls (main env_example 12 (Inr vm_scenario4)) =
     [AdminClient_new [''bootstrap.servers'' \<mapsto> ''broker:9092'']] \<and>
   err (main env_example 12 (Inr vm_scenario4)) = topic_props_message @ endl \<and>
   status (main env_example 12 (Inr vm_scenario4)) = Exited 1 \<and>
   status (main env_unreachable 12 (Inr vm_scenario4)) = Aborted \<and>
   spec_malformed ''a='' \<and>
   calls (main env_example 12 (Inr vm_create_empty_value)) =
     [AdminClient_new [''bootstrap.servers'' \<mapsto> ''broker:9092''],
      createTopics_call [''t1''] 3 2 [''a'' \<mapsto> []] \<lparr>error = False, detail = []\<rparr>] \<and>
   status (main env_example 12 (Inr vm_create_empty_value)) = Exited 0 \<and>
   status (main env_example 13 (Inr vm_help_scenario4)) = Exited 0 \<and>
   err (main env_example 13 (Inr vm_help_scenario4)) = [] \<and>
   out (main env_example 6 (Inr vm_create_no_topic)) =
     ''The --create operation MUST be with '--topic/--partitions/--replication-factor' options!'' @ endl \<and>
   err (main env_example 6 (Inr vm_create_no_topic)) = []"
  by (simp add: run_scenario4 run_scenario4_unreachable run_create_empty_value
      run_help_scenario4 run_create_no_topic malformed_examples example_tokens)

subsection \<open>The exit status\<close>





subsection \<open>The streams\<close>

text \<open>
  C6 asks that the message of every failing invocation is written to the error stream and
  that the standard output carries no error text. At the third scenario of the
  specification, \<^verbatim>\<open>--bootstrap-server broker:9092 --delete --topic t1 --partitions 3\<close>,
  the handler of line 129 writes the message of the usage error to the standard output,
  and the error stream stays empty.
\<close>

theorem usage_error_on_standard_output:
  "out (main env_example 8 (Inr vm_scenario3)) =
     ''The --delete operation CANNOT take any of '--partitions/--replication-factor/--topic-props' options!'' @ endl \<and>
   err (main env_example 8 (Inr vm_scenario3)) = [] \<and>
   status (main env_example 8 (Inr vm_scenario3)) = Exited 1"
  by (simp add: example_defs program_defs)

text \<open>The parser prints nothing when it returns a request.\<close>

lemma ParseArguments_request_silent:
  assumes "ParseArguments env argc cmdline = (printed, Inr (Some args))"
  shows "printed = []"
proof (cases cmdline)
  case (Inl e)
  then show ?thesis using assms by (simp add: ParseArguments_def)
next
  case (Inr vm)
  then show ?thesis using assms ParseArguments_request [of env argc vm printed args] by simp
qed

text \<open>
  C7. A List request succeeds (exit status 0) exactly when every token of
  \<^verbatim>\<open>--admin-config\<close> is well formed, the constructor of the admin client does not throw
  and the listing of the admin client returns without error; then the client was
  constructed and listed once, the standard output is exactly the names returned, in
  the order returned, each followed by a newline, and nothing is written to the error
  stream.
\<close>

theorem list_output:
  assumes "ParseArguments env argc cmdline = (printed, Inr (Some args))"
    and "opType args = List"
  shows "(status (main env argc cmdline) = Exited 0 \<longleftrightarrow>
            (\<forall>tok \<in> set (adminConfig args). separators tok = 1) \<and>
            \<not> AdminClient_throws env
                (put_tokens [BOOTSTRAP_SERVERS env \<mapsto> broker args] (adminConfig args)) \<and>
            \<not> error (listTopics env
                (put_tokens [BOOTSTRAP_SERVERS env \<mapsto> broker args] (adminConfig args)))) \<and>
         (status (main env argc cmdline) = Exited 0 \<longrightarrow>
            out (main env argc cmdline) =
              concat (map (\<lambda>t. t @ endl)
                (topics (listTopics env
                   (put_tokens [BOOTSTRAP_SERVERS env \<mapsto> broker args] (adminConfig args))))) \<and>
            err (main env argc cmdline) = [] \<and>
            calls (main env argc cmdline) =
              [AdminClient_new (put_tokens [BOOTSTRAP_SERVERS env \<mapsto> broker args] (adminConfig args)),
               listTopics_call (listTopics env
                 (put_tokens [BOOTSTRAP_SERVERS env \<mapsto> broker args] (adminConfig args)))])"
proof -
  have m: "main env argc cmdline = dispatch env printed args"
    using assms(1) by (rule main_request)
  have silent: "printed = []"
    using assms(1) by (rule ParseArguments_request_silent)
  show ?thesis
  proof (cases "\<forall>tok \<in> set (adminConfig args). separators tok = 1")
    case True
    from dispatch_admin_config_put [OF True, of env] show ?thesis
      using True assms(2) silent
      by (simp add: m dispatch_def Let_def print_topics_eq EXIT_FAILURE_def EXIT_SUCCESS_def)
  next
    case False
    then have "\<exists>tok \<in> set (adminConfig args). separators tok \<noteq> 1" by simp
    from dispatch_admin_config_malformed [OF this, of env printed] False show ?thesis
      by (simp add: m EXIT_FAILURE_def)
  qed
qed

lemma ParseArguments_scenario1:
  "ParseArguments env 4 (Inr vm_scenario1) =
     ([], Inr (Some (request List ''broker:9092'' vm_scenario1)))"
  by (simp add: example_defs program_defs request_def)

text \<open>The theorem at the first scenario: the topics a and b give the output of two
  lines.\<close>

theorem list_output_witness:
  "status (main env_example 4 (Inr vm_scenario1)) = Exited 0 \<and>
   out (main env_example 4 (Inr vm_scenario1)) = ''a'' @ endl @ ''b'' @ endl"
proof -
  let ?args = "request List ''broker:9092'' vm_scenario1"
  let ?conf = "put_tokens [BOOTSTRAP_SERVERS env_example \<mapsto> broker ?args] (adminConfig ?args)"
  have a: "opType ?args = List"
    by (simp add: request_def)
  have b: "(\<forall>tok \<in> set (adminConfig ?args). separators tok = 1) \<and>
      \<not> AdminClient_throws env_example ?conf \<and> \<not> error (listTopics env_example ?conf)"
    by (simp add: request_def example_defs)
  have c: "topics (listTopics env_example ?conf) = [''a'', ''b'']"
    by (simp add: env_example_def)
  note t = list_output [OF ParseArguments_scenario1 a, where env = env_example]
  note ok = t [THEN conjunct1, THEN iffD2, OF b]
  from t [THEN conjunct2, THEN mp, OF ok, THEN conjunct1] ok show ?thesis
    by (simp add: c)
qed

subsection \<open>The numbers of a Create request\<close>

text \<open>
  C8, as amended. The parser does not examine the sign of the numbers. For every
  command line that the library parsed, that is no help invocation, that selects Create
  alone and that supplies \<^verbatim>\<open>--bootstrap-server\<close>, a topic, a partition count and a
  replication factor, whatever the two numbers are (zero and negative numbers too), the
  parser returns the Create request with exactly these values. And every Create request
  that the parser returns carries the topic, the partition count and the replication
  factor that were supplied on the command line, all three present.
\<close>

theorem create_request_values:
  "(\<not> vm_help vm \<and> argc \<noteq> 1 \<and> selects vm Create \<and> vm_bootstrap_server vm = Some b \<and>
    vm_topic vm = Some t \<and> vm_partitions vm = Some p \<and> vm_replication_factor vm = Some r \<longrightarrow>
      ParseArguments env argc (Inr vm) =
        ([], Inr (Some
           \<lparr>broker = b, topic = t, opType = Create, partitions = p, replicationFactor = r,
            adminConfig = (case vm_admin_config vm of None \<Rightarrow> [] | Some xs \<Rightarrow> xs),
            topicProps = (case vm_topic_props vm of None \<Rightarrow> [] | Some xs \<Rightarrow> xs)\<rparr>))) \<and>
   (ParseArguments env argc (Inr vm) = (printed, Inr (Some args)) \<and> opType args = Create \<longrightarrow>
      vm_topic vm = Some (topic args) \<and> vm_partitions vm = Some (partitions args) \<and>
      vm_replication_factor vm = Some (replicationFactor args))"
proof (intro conjI impI)
  assume a: "\<not> vm_help vm \<and> argc \<noteq> 1 \<and> selects vm Create \<and> vm_bootstrap_server vm = Some b \<and>
    vm_topic vm = Some t \<and> vm_partitions vm = Some p \<and> vm_replication_factor vm = Some r"
  then have sel: "selectors vm = 1" "selected vm = Create"
    using selects_selected [of vm Create] by simp_all
  have ok: "table_ok Create vm"
    using a by (simp add: table_ok_def)
  have "ParseArguments env argc (Inr vm) =
     ([], case check_operation vm (request (selected vm) b vm) of
            Inl e \<Rightarrow> Inl e | Inr args \<Rightarrow> Inr (Some args))"
    using a sel(1) by (intro ParseArguments_check) simp_all
  then have "ParseArguments env argc (Inr vm) = ([], Inr (Some (request Create b vm)))"
    by (simp add: sel(2) check_operation_accepts [OF ok])
  then show "ParseArguments env argc (Inr vm) =
        ([], Inr (Some
           \<lparr>broker = b, topic = t, opType = Create, partitions = p, replicationFactor = r,
            adminConfig = (case vm_admin_config vm of None \<Rightarrow> [] | Some xs \<Rightarrow> xs),
            topicProps = (case vm_topic_props vm of None \<Rightarrow> [] | Some xs \<Rightarrow> xs)\<rparr>))"
    using a by (simp add: request_def)
next
  assume b: "ParseArguments env argc (Inr vm) = (printed, Inr (Some args)) \<and> opType args = Create"
  from ParseArguments_request [of env argc vm printed args] b obtain b' where
    ok: "table_ok (selected vm) vm" and args: "args = request (selected vm) b' vm"
    by blast
  from args b have "selected vm = Create"
    by (simp add: request_def)
  with ok args show "vm_topic vm = Some (topic args)" "vm_partitions vm = Some (partitions args)"
    "vm_replication_factor vm = Some (replicationFactor args)"
    by (auto simp: table_ok_def request_def)
qed

text \<open>The theorem at \<^verbatim>\<open>--partitions=-1 --replication-factor=-2\<close>: the request is
  returned with the two negative numbers.\<close>

theorem create_request_values_witness:
  "ParseArguments env_example 8 (Inr vm_create_negative) =
     ([], Inr (Some
        \<lparr>broker = ''broker:9092'', topic = ''t1'', opType = Create, partitions = - 1,
         replicationFactor = - 2, adminConfig = [], topicProps = []\<rparr>)) \<and>
   sint (- 1 :: 32 word) = - 1 \<and> sint (- 2 :: 32 word) = - 2"
proof -
  have a: "\<not> vm_help vm_create_negative \<and> (8::int) \<noteq> 1 \<and> selects vm_create_negative Create \<and>
      vm_bootstrap_server vm_create_negative = Some ''broker:9092'' \<and>
      vm_topic vm_create_negative = Some ''t1'' \<and> vm_partitions vm_create_negative = Some (- 1) \<and>
      vm_replication_factor vm_create_negative = Some (- 2)"
    by (simp add: example_defs selects_def)
  have none: "vm_admin_config vm_create_negative = None" "vm_topic_props vm_create_negative = None"
    by (simp_all add: example_defs)
  from create_request_values [where env = env_example, THEN conjunct1, THEN mp, OF a]
  show ?thesis
    by (simp add: none)
qed

lemma ParseArguments_create_zero:
  "ParseArguments env_example 10 (Inr vm_create_zero) =
     ([], Inr (Some
        \<lparr>broker = ''broker:9092'', topic = ''t1'', opType = Create, partitions = 0,
         replicationFactor = 0, adminConfig = [], topicProps = []\<rparr>))"
  by (simp add: example_defs program_defs)

lemma ParseArguments_create_negative:
  "ParseArguments env_example 8 (Inr vm_create_negative) =
     ([], Inr (Some
        \<lparr>broker = ''broker:9092'', topic = ''t1'', opType = Create, partitions = - 1,
         replicationFactor = - 2, adminConfig = [], topicProps = []\<rparr>))"
  by (simp add: example_defs program_defs)

text \<open>
  C8 as it was stated fails: \<^verbatim>\<open>--create --topic t1 --partitions 0 --replication-factor 0\<close>
  is returned as a Create request whose partition count and replication factor are
  zero, and \<^verbatim>\<open>--create --topic t1 --partitions=-1 --replication-factor=-2\<close> as one
  whose numbers are negative.
\<close>

theorem create_request_counterexample:
  "snd (ParseArguments env_example 10 (Inr vm_create_zero)) =
     Inr (Some
        \<lparr>broker = ''broker:9092'', topic = ''t1'', opType = Create, partitions = 0,
         replicationFactor = 0, adminConfig = [], topicProps = []\<rparr>) \<and>
   \<not> 0 < sint (0 :: 32 word) \<and>
   snd (ParseArguments env_example 8 (Inr vm_create_negative)) =
     Inr (Some
        \<lparr>broker = ''broker:9092'', topic = ''t1'', opType = Create, partitions = - 1,
         replicationFactor = - 2, adminConfig = [], topicProps = []\<rparr>) \<and>
   \<not> 0 < sint (- 1 :: 32 word) \<and> \<not> 0 < sint (- 2 :: 32 word)"
  by (simp add: ParseArguments_create_zero ParseArguments_create_negative)

subsection \<open>The help\<close>

text \<open>
  C9, as amended. For every command line that the library parsed at line 69 and that
  holds a help option, and for every invocation without arguments (\<open>argc\<close> is 1), the
  parser returns the null pointer after printing the usage text, and the process ends
  with the three parts of the usage text on the standard output (the banner, the line
  with the library version, the description of the options), nothing on the error
  stream, status 0 and no call to the admin client. For every command line that the
  library rejects at line 69, with a help option or not, the process prints the message
  of the library's exception on the standard output, without the usage text, and exits
  with status 1.
\<close>

theorem help_outcome:
  "(vm_help vm \<or> argc = 1 \<longrightarrow>
      snd (ParseArguments env argc (Inr vm)) = Inr None \<and>
      main env argc (Inr vm) =
        \<lparr>out = ''This tool helps in Kafka topic operations'' @ endl @
               ''    (with librdkafka v'' @ getLibRdKafkaVersion env @ '')'' @ endl @
               desc env @ endl,
         err = [], status = Exited 0, calls = []\<rparr>) \<and>
   main env argc (Inl e) = \<lparr>out = what e @ endl, err = [], status = Exited 1, calls = []\<rparr>"
proof (intro conjI impI)
  assume a: "vm_help vm \<or> argc = 1"
  from ParseArguments_help [OF a, of env]
  show "snd (ParseArguments env argc (Inr vm)) = Inr None"
    by simp
  from ParseArguments_help [OF a, of env]
  show "main env argc (Inr vm) =
        \<lparr>out = ''This tool helps in Kafka topic operations'' @ endl @
               ''    (with librdkafka v'' @ getLibRdKafkaVersion env @ '')'' @ endl @
               desc env @ endl,
         err = [], status = Exited 0, calls = []\<rparr>"
    by (simp add: main_def usage_def EXIT_SUCCESS_def)
next
  show "main env argc (Inl e) = \<lparr>out = what e @ endl, err = [], status = Exited 1, calls = []\<rparr>"
    by (simp add: main_def ParseArguments_def EXIT_FAILURE_def)
qed

text \<open>The theorem at \<^verbatim>\<open>--help\<close> and at the command line without arguments.\<close>

theorem help_outcome_witness:
  "out (main env_example 2 (Inr (vm_empty\<lparr>vm_help := True\<rparr>))) =
     ''This tool helps in Kafka topic operations'' @ endl @
     ''    (with librdkafka v1.0.0)'' @ endl @ ''Options description:'' @ endl \<and>
   status (main env_example 2 (Inr (vm_empty\<lparr>vm_help := True\<rparr>))) = Exited 0 \<and>
   status (main env_example 1 (Inr vm_empty)) = Exited 0 \<and>
   calls (main env_example 1 (Inr vm_empty)) = []"
proof -
  have a: "vm_help (vm_empty\<lparr>vm_help := True\<rparr>) \<or> (2::int) = 1" by simp
  have b: "vm_help vm_empty \<or> (1::int) = 1" by simp
  have c: "getLibRdKafkaVersion env_example = ''1.0.0''" "desc env_example = ''Options description:''"
    by (simp_all add: env_example_def)
  from help_outcome [where env = env_example, THEN conjunct1, THEN mp, OF a, THEN conjunct2]
    help_outcome [where env = env_example, THEN conjunct1, THEN mp, OF b, THEN conjunct2]
  show ?thesis
    by (simp add: c)
qed

text \<open>
  C9 as it was stated fails for a command line that holds a help option and that the
  library rejects: line 69 parses the whole command line before line 71 looks for the
  help option. For \<^verbatim>\<open>--help --no-such-option\<close> the handler of line 129 prints the message
  of the library, the usage text is not printed, and the exit status is 1.
\<close>

theorem help_outcome_counterexample:
  "out (main env_example 3 rejected_help_unknown_option) =
     ''unrecognised option '--no-such-option'' @ [CHR 0x27] @ endl \<and>
   snd (ParseArguments env_example 3 rejected_help_unknown_option) \<noteq> Inr None \<and>
   status (main env_example 3 rejected_help_unknown_option) = Exited 1"
  by (simp add: rejected_help_unknown_option_def main_def ParseArguments_def EXIT_FAILURE_def)

text \<open>
  C10, as amended. The help comes before every check that the parser makes after the
  library has parsed the command line: a help invocation whose command line lacks
  \<^verbatim>\<open>--bootstrap-server\<close>, or does not select exactly one operation, or violates the table
  of the selected operation, prints the usage text (banner, version line, description
  of the options) and exits with status 0 without any call, although the same options
  without the help option (and with arguments) exit with status 1. The help does not
  come before the library's own parse of the command line (line 69): a command line
  that the library rejects ends with the library's message on the standard output and
  status 1, with a help option or not.
\<close>

theorem help_precedes_validation:
  "((vm_help vm \<or> argc = 1) \<and>
    (vm_bootstrap_server vm = None \<or> selectors vm \<noteq> 1 \<or> \<not> table_ok (selected vm) vm) \<and>
    argc' \<noteq> 1 \<longrightarrow>
      main env argc (Inr vm) =
        \<lparr>out = ''This tool helps in Kafka topic operations'' @ endl @
               ''    (with librdkafka v'' @ getLibRdKafkaVersion env @ '')'' @ endl @
               desc env @ endl,
         err = [], status = Exited 0, calls = []\<rparr> \<and>
      status (main env argc' (Inr (vm\<lparr>vm_help := False\<rparr>))) = Exited 1) \<and>
   status (main env argc (Inl e)) = Exited 1 \<and> out (main env argc (Inl e)) = what e @ endl"
proof (intro conjI impI)
  assume a: "(vm_help vm \<or> argc = 1) \<and>
    (vm_bootstrap_server vm = None \<or> selectors vm \<noteq> 1 \<or> \<not> table_ok (selected vm) vm) \<and>
    argc' \<noteq> 1"
  then have h: "vm_help vm \<or> argc = 1" and args: "argc' \<noteq> 1"
    and violated: "vm_bootstrap_server vm = None \<or> selectors vm \<noteq> 1 \<or> \<not> table_ok (selected vm) vm"
    by simp_all
  from ParseArguments_help [OF h, of env]
  show "main env argc (Inr vm) =
        \<lparr>out = ''This tool helps in Kafka topic operations'' @ endl @
               ''    (with librdkafka v'' @ getLibRdKafkaVersion env @ '')'' @ endl @
               desc env @ endl,
         err = [], status = Exited 0, calls = []\<rparr>"
    by (simp add: main_def usage_def EXIT_SUCCESS_def)
  let ?vm = "vm\<lparr>vm_help := False\<rparr>"
  have same: "vm_bootstrap_server ?vm = vm_bootstrap_server vm" "selectors ?vm = selectors vm"
    "table_ok (selected ?vm) ?vm = table_ok (selected vm) vm" "\<not> vm_help ?vm"
    by (simp_all add: selectors_def selected_def table_ok_def)
  have "\<exists>e. ParseArguments env argc' (Inr ?vm) = ([], Inl e)"
  proof (cases "vm_bootstrap_server vm")
    case None
    then show ?thesis
      using args same by (simp add: ParseArguments_required)
  next
    case (Some b)
    show ?thesis
    proof (cases "selectors vm = 1")
      case False
      then show ?thesis
        using args same Some by (simp add: ParseArguments_choose_one)
    next
      case True
      then have bad: "\<not> table_ok (selected ?vm) ?vm"
        using violated Some same by simp
      have "ParseArguments env argc' (Inr ?vm) =
         ([], case check_operation ?vm (request (selected ?vm) b ?vm) of
                Inl e \<Rightarrow> Inl e | Inr args \<Rightarrow> Inr (Some args))"
        using same True Some args by (intro ParseArguments_check) simp_all
      then show ?thesis
        using check_operation_rejects [OF bad, of b] by auto
    qed
  qed
  then obtain e where "ParseArguments env argc' (Inr ?vm) = ([], Inl e)" ..
  then show "status (main env argc' (Inr ?vm)) = Exited 1"
    by (simp add: main_def EXIT_FAILURE_def)
next
  show "status (main env argc (Inl e)) = Exited 1"
    by (simp add: main_def ParseArguments_def EXIT_FAILURE_def)
  show "out (main env argc (Inl e)) = what e @ endl"
    by (simp add: main_def ParseArguments_def)
qed

text \<open>The theorem at \<^verbatim>\<open>--help --bootstrap-server broker:9092 --list --topic t1\<close>.\<close>

theorem help_precedes_validation_witness:
  "out (main env_example 7 (Inr vm_help_list_topic)) =
     ''This tool helps in Kafka topic operations'' @ endl @
     ''    (with librdkafka v1.0.0)'' @ endl @ ''Options description:'' @ endl \<and>
   status (main env_example 7 (Inr vm_help_list_topic)) = Exited 0 \<and>
   calls (main env_example 7 (Inr vm_help_list_topic)) = [] \<and>
   status (main env_example 6 (Inr (vm_help_list_topic\<lparr>vm_help := False\<rparr>))) = Exited 1"
proof -
  have a: "(vm_help vm_help_list_topic \<or> (7::int) = 1) \<and>
      (vm_bootstrap_server vm_help_list_topic = None \<or> selectors vm_help_list_topic \<noteq> 1 \<or>
       \<not> table_ok (selected vm_help_list_topic) vm_help_list_topic) \<and> (6::int) \<noteq> 1"
    by (simp add: example_defs selected_def table_ok_def)
  have c: "getLibRdKafkaVersion env_example = ''1.0.0''" "desc env_example = ''Options description:''"
    by (simp_all add: env_example_def)
  from help_precedes_validation [where env = env_example, THEN conjunct1, THEN mp, OF a]
  show ?thesis
    by (simp add: c)
qed

text \<open>
  C10 as it was stated fails for a command line that holds a help option and that the
  library rejects: for \<^verbatim>\<open>--help --partitions abc\<close> the conversion of the number fails at
  line 69, before the help option is looked for, and the process prints the message of
  the library and exits with status 1.
\<close>

theorem help_precedes_validation_counterexample:
  "out (main env_example 4 rejected_help_bad_number) =
     ''the argument ('abc') for option '--partitions' is invalid'' @ endl \<and>
   calls (main env_example 4 rejected_help_bad_number) = [] \<and>
   status (main env_example 4 rejected_help_bad_number) = Exited 1"
  by (simp add: rejected_help_bad_number_def main_def ParseArguments_def EXIT_FAILURE_def)

end
